theory Spec2Isabelle
  imports Complex_Main "HOL-Library.AList"
begin

section \<open>Python values and exceptions\<close>

text \<open>
  The agents exchange plain Python dictionaries whose values are whatever
  \<^verbatim>\<open>json.loads\<close> produced or the caller passed in. A value is modelled by
  \<open>pyval\<close>; a dictionary is an association list in insertion order with
  distinct keys, read with \<open>map_of\<close>. A string is a list of code points,
  restricted to the range of \<open>char\<close>.

  A Python float is either a finite number, an infinity or NaN. The finite
  case keeps the exact rational; the code under study only compares such a
  value with zero.
\<close>

datatype pyfloat = Finite rat | PosInf | NegInf | NaN

datatype pyval =
    PNone
  | PBool bool
  | PInt int
  | PFloat pyfloat
  | PStr string
  | PList "pyval list"
  | PDict "(string \<times> pyval) list"

text \<open>
  An exception is its class together with \<^verbatim>\<open>str(e)\<close>. \<open>Exception\<close> stands for
  any class not listed (for instance the errors of the HTTP client).
\<close>

datatype exc_class =
    Exception
  | TypeError
  | ValueError
  | JSONDecodeError
  | UnicodeDecodeError
  | ParserError
  | OverflowError
  | KeyError
  | IndexError
  | AttributeError
  | NameError
  | OSError
  | FileNotFoundError

type_synonym py_exception = "exc_class \<times> string"

text \<open>\<open>issubclass c d\<close>: would \<^verbatim>\<open>except d\<close> catch an exception of class \<open>c\<close>.\<close>

fun issubclass :: "exc_class \<Rightarrow> exc_class \<Rightarrow> bool" where
  "issubclass c Exception = True"
| "issubclass JSONDecodeError ValueError = True"
| "issubclass UnicodeDecodeError ValueError = True"
| "issubclass ParserError ValueError = True"
| "issubclass FileNotFoundError OSError = True"
| "issubclass c d = (c = d)"

fun type_name :: "pyval \<Rightarrow> string" where
  "type_name PNone = ''NoneType''"
| "type_name (PBool b) = ''bool''"
| "type_name (PInt i) = ''int''"
| "type_name (PFloat f) = ''float''"
| "type_name (PStr s) = ''str''"
| "type_name (PList xs) = ''list''"
| "type_name (PDict d) = ''dict''"

subsection \<open>String helpers\<close>

text \<open>\<^verbatim>\<open>needle in haystack\<close> on strings.\<close>

fun starts_with :: "string \<Rightarrow> string \<Rightarrow> bool" where
  "starts_with s [] = True"
| "starts_with [] (p # ps) = False"
| "starts_with (c # cs) (p # ps) = (c = p \<and> starts_with cs ps)"

fun str_contains :: "string \<Rightarrow> string \<Rightarrow> bool" where
  "str_contains [] needle = (needle = [])"
| "str_contains (c # cs) needle = (starts_with (c # cs) needle \<or> str_contains cs needle)"

text \<open>\<^verbatim>\<open>sep.join(xs)\<close>.\<close>

fun join :: "string \<Rightarrow> string list \<Rightarrow> string" where
  "join sep [] = []"
| "join sep [x] = x"
| "join sep (x # y # ys) = x @ sep @ join sep (y # ys)"

subsection \<open>Operations on values\<close>

text \<open>\<^verbatim>\<open>key in data\<close> for a string key.\<close>

fun py_contains :: "pyval \<Rightarrow> string \<Rightarrow> py_exception + bool" where
  "py_contains (PDict d) k = Inr (map_of d k \<noteq> None)"
| "py_contains (PList xs) k = Inr (PStr k \<in> set xs)"
| "py_contains (PStr s) k = Inr (str_contains s k)"
| "py_contains v k = Inl (TypeError, ''argument of type '' @ [CHR 0x27] @ type_name v @ [CHR 0x27] @ '' is not iterable'')"

text \<open>\<^verbatim>\<open>data[key]\<close> for a string key.\<close>

fun py_getitem :: "pyval \<Rightarrow> string \<Rightarrow> py_exception + pyval" where
  "py_getitem (PDict d) k = (case map_of d k of
        None \<Rightarrow> Inl (KeyError, [CHR 0x27] @ k @ [CHR 0x27])
      | Some v \<Rightarrow> Inr v)"
| "py_getitem (PList xs) k = Inl (TypeError, ''list indices must be integers or slices, not str'')"
| "py_getitem (PStr s) k = Inl (TypeError, ''string indices must be integers'')"
| "py_getitem v k = Inl (TypeError, [CHR 0x27] @ type_name v @ [CHR 0x27] @ '' object is not subscriptable'')"

text \<open>
  \<^verbatim>\<open>float(v)\<close>. Converting a string is the interpreter's own parser, taken as
  the parameter \<open>fos\<close> (\<open>None\<close> is its \<^verbatim>\<open>ValueError\<close>). An integer converts
  to the nearest double, which has the same sign as the integer, unless it
  would round to \<open>2 ^ 1024\<close> or beyond: then \<^verbatim>\<open>OverflowError\<close> is raised.
\<close>

definition py_float :: "(string \<Rightarrow> pyfloat option) \<Rightarrow> pyval \<Rightarrow> py_exception + pyfloat" where
  "py_float fos v =
     (case v of
        PFloat f \<Rightarrow> Inr f
      | PInt i \<Rightarrow>
          if 2 ^ 1024 - 2 ^ 970 \<le> \<bar>i\<bar>
          then Inl (OverflowError, ''int too large to convert to float'')
          else Inr (Finite (of_int i))
      | PBool b \<Rightarrow> Inr (Finite (if b then 1 else 0))
      | PStr s \<Rightarrow>
          (case fos s of
             None \<Rightarrow> Inl (ValueError, ''could not convert string to float'')
           | Some f \<Rightarrow> Inr f)
      | _ \<Rightarrow> Inl (TypeError, ''float() argument must be a string or a real number, not ''
                   @ [CHR 0x27] @ type_name v @ [CHR 0x27]))"

text \<open>\<^verbatim>\<open>amount <= 0\<close>: every comparison with NaN is false.\<close>

fun le_zero :: "pyfloat \<Rightarrow> bool" where
  "le_zero (Finite r) = (r \<le> 0)"
| "le_zero PosInf = False"
| "le_zero NegInf = True"
| "le_zero NaN = False"

text \<open>
  \<^verbatim>\<open>dateutil.parser.parse(v)\<close>. The library rejects anything that is not a
  string or stream with \<^verbatim>\<open>TypeError\<close>; what it does on a string is the
  parameter \<open>dp\<close>.
\<close>

definition parser_parse :: "(string \<Rightarrow> py_exception + unit) \<Rightarrow> pyval \<Rightarrow> py_exception + unit" where
  "parser_parse dp v =
     (case v of
        PStr s \<Rightarrow> dp s
      | _ \<Rightarrow> Inl (TypeError, ''Parser must be a string or character stream, not '' @ type_name v))"

section \<open>Validation agent\<close>

record validation_result =
  v_status :: "string option"
  v_errors :: "string list option"

text \<open>\<^verbatim>\<open>ValidationAgent._is_valid_date\<close>\<close>

definition is_valid_date :: "(string \<Rightarrow> py_exception + unit) \<Rightarrow> pyval \<Rightarrow> py_exception + bool" where
  "is_valid_date dp date_str =
     (case parser_parse dp date_str of
        Inr parsed_date \<Rightarrow> Inr True
      | Inl (c, m) \<Rightarrow>
          if issubclass c ValueError \<or> issubclass c TypeError then Inr False
          else Inl (c, m))"

text \<open>The loop over \<^verbatim>\<open>required_fields\<close>, appending to \<^verbatim>\<open>errors\<close>.\<close>

fun check_required :: "pyval \<Rightarrow> string list \<Rightarrow> string list \<Rightarrow> py_exception + string list" where
  "check_required extracted_data [] errors = Inr errors"
| "check_required extracted_data (field # rest) errors =
     (case py_contains extracted_data field of
        Inl e \<Rightarrow> Inl e
      | Inr present \<Rightarrow>
          if \<not> present
          then check_required extracted_data rest (errors @ [''Missing required field: '' @ field])
          else (case py_getitem extracted_data field of
                  Inl e \<Rightarrow> Inl e
                | Inr v \<Rightarrow>
                    if v = PNone
                    then check_required extracted_data rest
                           (errors @ [''Missing required field: '' @ field])
                    else check_required extracted_data rest errors))"

text \<open>
  \<^verbatim>\<open>key in data and data[key] is not None\<close>, the guard of the two later
  checks; on success it hands over the value.
\<close>

definition present_value :: "pyval \<Rightarrow> string \<Rightarrow> py_exception + pyval option" where
  "present_value extracted_data k =
     (case py_contains extracted_data k of
        Inl e \<Rightarrow> Inl e
      | Inr present \<Rightarrow>
          if \<not> present then Inr None
          else (case py_getitem extracted_data k of
                  Inl e \<Rightarrow> Inl e
                | Inr v \<Rightarrow> Inr (if v = PNone then None else Some v)))"

definition check_total_amount ::
  "(string \<Rightarrow> pyfloat option) \<Rightarrow> pyval \<Rightarrow> string list \<Rightarrow> py_exception + string list" where
  "check_total_amount fos extracted_data errors =
     (case present_value extracted_data ''total_amount'' of
        Inl e \<Rightarrow> Inl e
      | Inr None \<Rightarrow> Inr errors
      | Inr (Some v) \<Rightarrow>
          (case py_float fos v of
             Inr amount \<Rightarrow>
               Inr (if le_zero amount then errors @ [''total_amount must be a positive number'']
                    else errors)
           | Inl (c, m) \<Rightarrow>
               if issubclass c ValueError \<or> issubclass c TypeError
               then Inr (errors @ [''total_amount must be a valid number''])
               else Inl (c, m)))"

definition check_due_date ::
  "(string \<Rightarrow> py_exception + unit) \<Rightarrow> pyval \<Rightarrow> string list \<Rightarrow> py_exception + string list" where
  "check_due_date dp extracted_data errors =
     (case present_value extracted_data ''due_date'' of
        Inl e \<Rightarrow> Inl e
      | Inr None \<Rightarrow> Inr errors
      | Inr (Some v) \<Rightarrow>
          (case is_valid_date dp v of
             Inl e \<Rightarrow> Inl e
           | Inr ok \<Rightarrow>
               Inr (if \<not> ok then errors @ [''due_date must be a valid date format'']
                    else errors)))"

text \<open>\<^verbatim>\<open>ValidationAgent.validate\<close>\<close>

definition validate ::
  "(string \<Rightarrow> pyfloat option) \<Rightarrow> (string \<Rightarrow> py_exception + unit) \<Rightarrow> pyval
     \<Rightarrow> py_exception + validation_result" where
  "validate fos dp extracted_data =
     (case check_required extracted_data [''biller_name'', ''total_amount''] [] of
        Inl e \<Rightarrow> Inl e
      | Inr errors1 \<Rightarrow>
     (case check_total_amount fos extracted_data errors1 of
        Inl e \<Rightarrow> Inl e
      | Inr errors2 \<Rightarrow>
     (case check_due_date dp extracted_data errors2 of
        Inl e \<Rightarrow> Inl e
      | Inr errors \<Rightarrow>
          if length errors = 0
          then Inr \<lparr>v_status = Some ''valid'', v_errors = Some []\<rparr>
          else Inr \<lparr>v_status = Some ''incomplete'', v_errors = Some errors\<rparr>)))"

section \<open>Tool decision agent\<close>

record decision =
  should_write :: bool
  reason :: string
  data_to_write :: pyval

text \<open>\<^verbatim>\<open>ToolDecisionAgent.decide\<close>\<close>

definition decide :: "validation_result \<Rightarrow> pyval \<Rightarrow> decision" where
  "decide validation_result extracted_data =
     (let status = (case v_status validation_result of None \<Rightarrow> ''incomplete'' | Some s \<Rightarrow> s)
      in if status = ''valid''
         then \<lparr>should_write = True,
               reason = ''Invoice validation passed'',
               data_to_write = extracted_data\<rparr>
         else \<lparr>should_write = False,
               reason = ''Validation failed: ''
                  @ join '', '' (case v_errors validation_result of None \<Rightarrow> [] | Some es \<Rightarrow> es),
               data_to_write = PNone\<rparr>)"

section \<open>Database tool\<close>

text \<open>
  The mock database is one JSON file. What the tool can observe of it is
  whether it exists and, if so, what \<^verbatim>\<open>json.load\<close> makes of it: \<open>NotText\<close> is
  a file whose bytes do not decode as text, on which reading raises
  \<^verbatim>\<open>UnicodeDecodeError\<close>; \<open>Corrupt\<close> is a file of text that is not JSON, such as
  an empty or cut-off file, on which the decoder raises
  \<^verbatim>\<open>json.JSONDecodeError\<close>; \<open>Json v\<close> is a file that decodes to \<open>v\<close>.
\<close>

datatype db_file = Missing | NotText | Corrupt | Json pyval

text \<open>
  What the file system and the serialiser do during one call: nothing
  unusual; an \<^verbatim>\<open>OSError\<close> other than "file not found" when the file is opened
  for reading (no permission, say); an \<^verbatim>\<open>OSError\<close> when it is opened for
  writing; or an exception raised by \<^verbatim>\<open>json.dump\<close> or by the flush on closing,
  after the file has been opened for writing and before its text is
  complete. The last has its cause in the file system (a full disk) or in
  the data (an integer with more digits than the interpreter converts to
  text); either way \<open>NoFault\<close> says that \<^verbatim>\<open>json.dump\<close> ran to its end. What
  \<^verbatim>\<open>json.dump\<close> writes is ASCII, so a cut-off file is \<open>Corrupt\<close>, not
  \<open>NotText\<close>. The faults carry the text of the exception.
\<close>

datatype io_fault =
    NoFault
  | ReadFault string
  | OpenFault string
  | DumpFault py_exception

record write_result =
  success :: bool
  message :: string
  invoice_id :: "int option"

text \<open>The body of the \<^verbatim>\<open>try\<close> in \<^verbatim>\<open>_load_invoices\<close>: \<^verbatim>\<open>open\<close> and \<^verbatim>\<open>json.load\<close>.\<close>

definition read_db :: "io_fault \<Rightarrow> db_file \<Rightarrow> py_exception + pyval" where
  "read_db fault f =
     (case fault of
        ReadFault m \<Rightarrow> Inl (OSError, m)
      | _ \<Rightarrow>
          (case f of
             Missing \<Rightarrow> Inl (FileNotFoundError, ''No such file or directory'')
           | NotText \<Rightarrow>
               Inl (UnicodeDecodeError,
                    [CHR 0x27] @ ''utf-8'' @ [CHR 0x27]
                    @ '' codec can'' @ [CHR 0x27] @ ''t decode byte 0xff in position 0: invalid start byte'')
           | Corrupt \<Rightarrow> Inl (JSONDecodeError, ''Expecting value'')
           | Json v \<Rightarrow> Inr v))"

text \<open>\<^verbatim>\<open>DatabaseTool._load_invoices\<close>\<close>

definition load_invoices :: "io_fault \<Rightarrow> db_file \<Rightarrow> py_exception + pyval" where
  "load_invoices fault f =
     (case read_db fault f of
        Inr v \<Rightarrow> Inr v
      | Inl (c, m) \<Rightarrow>
          if issubclass c FileNotFoundError then Inr (PList [])
          else if issubclass c JSONDecodeError then Inr (PList [])
          else Inl (c, m))"

text \<open>
  \<^verbatim>\<open>DatabaseTool._save_invoices\<close>: opening with mode \<^verbatim>\<open>'w'\<close> empties the file
  before anything is written, so an error after that point leaves a file
  that is no longer valid JSON. Returns the file and the outcome.
\<close>

definition save_invoices :: "io_fault \<Rightarrow> db_file \<Rightarrow> pyval \<Rightarrow> db_file \<times> (py_exception + unit)" where
  "save_invoices fault f invoices =
     (case fault of
        OpenFault m \<Rightarrow> (f, Inl (OSError, m))
      | DumpFault e \<Rightarrow> (Corrupt, Inl e)
      | _ \<Rightarrow> (Json invoices, Inr ()))"

text \<open>\<^verbatim>\<open>len(v)\<close>\<close>

fun py_len :: "pyval \<Rightarrow> py_exception + nat" where
  "py_len (PList xs) = Inr (length xs)"
| "py_len (PDict d) = Inr (length d)"
| "py_len (PStr s) = Inr (length s)"
| "py_len v = Inl (TypeError, ''object of type '' @ [CHR 0x27] @ type_name v @ [CHR 0x27] @ '' has no len()'')"

text \<open>\<^verbatim>\<open>v.append(x)\<close>, returning the list after the call.\<close>

fun py_append :: "pyval \<Rightarrow> pyval \<Rightarrow> py_exception + pyval" where
  "py_append (PList xs) x = Inr (PList (xs @ [x]))"
| "py_append v x = Inl (AttributeError, [CHR 0x27] @ type_name v @ [CHR 0x27]
                          @ '' object has no attribute '' @ [CHR 0x27] @ ''append'' @ [CHR 0x27])"

text \<open>
  The dictionary display \<^verbatim>\<open>{**invoice_data, "id": ..., "created_at": ..., "status": "stored"}\<close>:
  the unpacked operand must be a mapping; later keys overwrite earlier ones in
  place. It is evaluated left to right, so a bad operand is reported before
  \<^verbatim>\<open>len(invoices)\<close> is taken.
\<close>

definition invoice_record :: "pyval \<Rightarrow> pyval \<Rightarrow> string \<Rightarrow> py_exception + (string \<times> pyval) list" where
  "invoice_record invoice_data invoices now =
     (case invoice_data of
        PDict d \<Rightarrow>
          (case py_len invoices of
             Inl e \<Rightarrow> Inl e
           | Inr n \<Rightarrow>
               Inr (AList.update ''status'' (PStr ''stored'')
                     (AList.update ''created_at'' (PStr now)
                       (AList.update ''id'' (PInt (int n + 1)) d))))
      | _ \<Rightarrow> Inl (TypeError, [CHR 0x27] @ type_name invoice_data @ [CHR 0x27]
                     @ '' object is not a mapping''))"

text \<open>\<^verbatim>\<open>record[key]\<close> where the entry is known to be an integer.\<close>

definition int_item :: "(string \<times> pyval) list \<Rightarrow> string \<Rightarrow> int option" where
  "int_item record k = (case map_of record k of Some (PInt i) \<Rightarrow> Some i | _ \<Rightarrow> None)"

definition write_failed :: "py_exception \<Rightarrow> write_result" where
  "write_failed e =
     \<lparr>success = False, message = ''Error writing to database: '' @ snd e, invoice_id = None\<rparr>"

text \<open>
  \<^verbatim>\<open>DatabaseTool.write_invoice_to_db\<close>, with the clock reading \<open>now\<close>
  (\<^verbatim>\<open>datetime.now().isoformat()\<close>); returns the file after the call and the
  result dictionary. \<^verbatim>\<open>invoice_record["id"]\<close> is read back from the record
  just built, where it is always present.
\<close>

definition write_invoice_to_db ::
  "io_fault \<Rightarrow> string \<Rightarrow> db_file \<Rightarrow> pyval \<Rightarrow> db_file \<times> write_result" where
  "write_invoice_to_db fault now f invoice_data =
     (case load_invoices fault f of
        Inl e \<Rightarrow> (f, write_failed e)
      | Inr invoices \<Rightarrow>
     (case invoice_record invoice_data invoices now of
        Inl e \<Rightarrow> (f, write_failed e)
      | Inr record \<Rightarrow>
     (case py_append invoices (PDict record) of
        Inl e \<Rightarrow> (f, write_failed e)
      | Inr invoices' \<Rightarrow>
     (case save_invoices fault f invoices' of
        (f', Inl e) \<Rightarrow> (f', write_failed e)
      | (f', Inr u) \<Rightarrow>
          (f', \<lparr>success = True,
                message = ''Invoice successfully written to database'',
                invoice_id = int_item record ''id''\<rparr>)))))"

text \<open>\<^verbatim>\<open>DatabaseTool._ensure_db_exists\<close>, run by the constructor.\<close>

definition ensure_db_exists :: "db_file \<Rightarrow> db_file" where
  "ensure_db_exists f = (case f of Missing \<Rightarrow> Json (PList []) | _ \<Rightarrow> f)"




section \<open>Extraction agent\<close>

subsection \<open>More string operations\<close>

text \<open>\<^verbatim>\<open>s.find(c)\<close> and \<^verbatim>\<open>s.rfind(c)\<close> for a single character: \<open>-1\<close> when absent.\<close>

fun py_find :: "string \<Rightarrow> char \<Rightarrow> int" where
  "py_find [] c = - 1"
| "py_find (x # xs) c =
     (if x = c then 0 else (let r = py_find xs c in if r = - 1 then - 1 else r + 1))"

definition py_rfind :: "string \<Rightarrow> char \<Rightarrow> int" where
  "py_rfind s c =
     (let r = py_find (rev s) c in if r = - 1 then - 1 else int (length s) - 1 - r)"

text \<open>\<^verbatim>\<open>s[a:b]\<close> for \<open>0 \<le> a \<le> b\<close>, the only way the agent slices.\<close>

definition py_slice :: "string \<Rightarrow> int \<Rightarrow> int \<Rightarrow> string" where
  "py_slice s a b = take (nat (b - a)) (drop (nat a) s)"

text \<open>\<^verbatim>\<open>s.lower()\<close> on code points below 256.\<close>

definition lower_char :: "char \<Rightarrow> char" where
  "lower_char c =
     (let n = (of_char c :: nat)
      in if (65 \<le> n \<and> n \<le> 90) \<or> (192 \<le> n \<and> n \<le> 222 \<and> n \<noteq> 215)
         then char_of (n + 32) else c)"

definition py_lower :: "string \<Rightarrow> string" where
  "py_lower s = map lower_char s"

text \<open>\<^verbatim>\<open>s.replace(old, new)\<close>: every non-overlapping occurrence, left to right.\<close>

function py_replace :: "string \<Rightarrow> string \<Rightarrow> string \<Rightarrow> string" where
  "py_replace s old new =
     (if old = [] then new @ concat (map (\<lambda>c. c # new) s)
      else (case s of
              [] \<Rightarrow> []
            | c # cs \<Rightarrow>
                if starts_with s old then new @ py_replace (drop (length old) s) old new
                else c # py_replace cs old new))"
  by pat_completeness auto
termination
  by (relation "measure (\<lambda>(s, old, new). length s)") auto

declare py_replace.simps [simp del]

subsection \<open>The agent\<close>

text \<open>
  The language model is reached through an HTTP client. A request is the
  model name and the two messages (temperature, token limit and response
  format are the same constants in both calls); a response is the list of
  its choices, each reduced to \<^verbatim>\<open>message.content\<close>, which may be \<^verbatim>\<open>None\<close>.
  The client and \<^verbatim>\<open>json.loads\<close> on a string are parameters.
\<close>

record chat_request =
  rq_model :: string
  rq_system :: string
  rq_user :: string

type_synonym chat_response = "string option list"

type_synonym chat_client = "chat_request \<Rightarrow> py_exception + chat_response"

type_synonym json_decoder = "string \<Rightarrow> py_exception + pyval"

record extraction_agent =
  model :: string
  prompt_template :: string

definition null_mapping :: "string \<Rightarrow> pyval" where
  "null_mapping err =
     PDict [(''biller_name'', PNone), (''biller_address'', PNone),
            (''total_amount'', PNone), (''due_date'', PNone), (''error'', PStr err)]"

text \<open>\<^verbatim>\<open>response.choices[0].message.content\<close>\<close>

definition first_content :: "chat_response \<Rightarrow> py_exception + string option" where
  "first_content response =
     (case response of
        [] \<Rightarrow> Inl (IndexError, ''list index out of range'')
      | content # others \<Rightarrow> Inr content)"

text \<open>\<^verbatim>\<open>json.loads(result_text)\<close>, where \<^verbatim>\<open>result_text\<close> may be \<^verbatim>\<open>None\<close>.\<close>

definition json_loads :: "json_decoder \<Rightarrow> string option \<Rightarrow> py_exception + pyval" where
  "json_loads loads result_text =
     (case result_text of
        None \<Rightarrow> Inl (TypeError, ''the JSON object must be str, bytes or bytearray, not NoneType'')
      | Some t \<Rightarrow> loads t)"

text \<open>
  \<^verbatim>\<open>ExtractionAgent._parse_json_from_text\<close>: the inner block yields the decoded
  value, or nothing when the braces are not found; any exception in it is
  swallowed.
\<close>

definition parse_json_from_text :: "json_decoder \<Rightarrow> string option \<Rightarrow> pyval" where
  "parse_json_from_text loads text =
     (case (case text of
              None \<Rightarrow> Inl (AttributeError, [CHR 0x27] @ ''NoneType'' @ [CHR 0x27]
                             @ '' object has no attribute '' @ [CHR 0x27] @ ''find'' @ [CHR 0x27])
            | Some t \<Rightarrow>
                (let start_idx = py_find t (CHR ''{'');
                     end_idx = py_rfind t (CHR ''}'') + 1
                 in if start_idx \<noteq> - 1 \<and> end_idx > start_idx
                    then (case loads (py_slice t start_idx end_idx) of
                            Inl e \<Rightarrow> Inl e
                          | Inr v \<Rightarrow> Inr (Some v))
                    else Inr None))
      of
        Inr (Some v) \<Rightarrow> v
      | _ \<Rightarrow> null_mapping ''Failed to parse JSON'')"

text \<open>
  The handler of \<^verbatim>\<open>json.JSONDecodeError\<close>. \<^verbatim>\<open>response\<close> is unbound when the
  exception came out of the client call itself.
\<close>

definition on_json_decode_error :: "json_decoder \<Rightarrow> chat_response option \<Rightarrow> pyval" where
  "on_json_decode_error loads response =
     (case (case response of
              None \<Rightarrow> Inl (NameError, ''cannot access local variable '' @ [CHR 0x27]
                             @ ''response'' @ [CHR 0x27])
            | Some r \<Rightarrow>
                (case first_content r of
                   Inl e \<Rightarrow> Inl e
                 | Inr result_text \<Rightarrow> Inr (parse_json_from_text loads result_text)))
      of
        Inr v \<Rightarrow> v
      | Inl e \<Rightarrow> null_mapping ''Failed to parse JSON response'')"

text \<open>The two requests the agent can send: first to its own model, then to the cheaper one.\<close>

definition primary_request :: "extraction_agent \<Rightarrow> string \<Rightarrow> chat_request" where
  "primary_request agent prompt =
     \<lparr>rq_model = model agent,
      rq_system = ''You are a precise JSON extraction agent specialized in Arabic and multilingual invoices. Return only valid JSON.'',
      rq_user = prompt\<rparr>"

definition fallback_request :: "string \<Rightarrow> chat_request" where
  "fallback_request prompt =
     \<lparr>rq_model = ''openai/gpt-4o-mini'',
      rq_system = ''You are a precise JSON extraction agent. Return only valid JSON.'',
      rq_user = prompt\<rparr>"

text \<open>The prompt: the template with the invoice text put in.\<close>

definition build_prompt :: "extraction_agent \<Rightarrow> string \<Rightarrow> string" where
  "build_prompt agent raw_text = py_replace (prompt_template agent) ''{raw_text}'' raw_text"

text \<open>The second attempt, on the cheaper model, inside the generic handler.\<close>

definition fallback_call :: "chat_client \<Rightarrow> json_decoder \<Rightarrow> string \<Rightarrow> pyval" where
  "fallback_call client loads prompt =
     (case (case client (fallback_request prompt) of
              Inl ex \<Rightarrow> Inl ex
            | Inr response \<Rightarrow>
                (case first_content response of
                   Inl ex \<Rightarrow> Inl ex
                 | Inr result_text \<Rightarrow> json_loads loads result_text))
      of
        Inr v \<Rightarrow> v
      | Inl ex \<Rightarrow> null_mapping (''Fallback failed: '' @ snd ex))"

text \<open>The handler of \<^verbatim>\<open>Exception\<close>.\<close>

definition on_exception :: "chat_client \<Rightarrow> json_decoder \<Rightarrow> string \<Rightarrow> py_exception \<Rightarrow> pyval" where
  "on_exception client loads prompt e =
     (if str_contains (snd e) ''402'' \<or> str_contains (py_lower (snd e)) ''credits''
      then fallback_call client loads prompt
      else null_mapping (snd e))"

text \<open>
  The two \<^verbatim>\<open>except\<close> clauses of \<^verbatim>\<open>extract\<close>, tried in order; an exception
  that neither catches would leave the method.
\<close>

definition handle_extract ::
  "chat_client \<Rightarrow> json_decoder \<Rightarrow> string \<Rightarrow> chat_response option \<Rightarrow> py_exception
     \<Rightarrow> py_exception + pyval" where
  "handle_extract client loads prompt response e =
     (if issubclass (fst e) JSONDecodeError then Inr (on_json_decode_error loads response)
      else if issubclass (fst e) Exception then Inr (on_exception client loads prompt e)
      else Inl e)"

text \<open>\<^verbatim>\<open>ExtractionAgent.extract\<close>\<close>

definition extract_fields ::
  "chat_client \<Rightarrow> json_decoder \<Rightarrow> extraction_agent \<Rightarrow> string \<Rightarrow> py_exception + pyval" where
  "extract_fields client loads agent raw_text =
     (let prompt = build_prompt agent raw_text
      in case client (primary_request agent prompt) of
           Inl e \<Rightarrow> handle_extract client loads prompt None e
         | Inr response \<Rightarrow>
             (case first_content response of
                Inl e \<Rightarrow> handle_extract client loads prompt (Some response) e
              | Inr result_text \<Rightarrow>
                  (case json_loads loads result_text of
                     Inl e \<Rightarrow> handle_extract client loads prompt (Some response) e
                   | Inr extracted_data \<Rightarrow> Inr extracted_data)))"

section \<open>Orchestrator\<close>

text \<open>
  \<^verbatim>\<open>s.strip()\<close> removes white space at both ends; below code point 256 the
  white-space characters are 9 to 13, 28 to 32, 133 and 160.
\<close>

definition py_isspace :: "char \<Rightarrow> bool" where
  "py_isspace c =
     (let n = (of_char c :: nat)
      in (9 \<le> n \<and> n \<le> 13) \<or> (28 \<le> n \<and> n \<le> 32) \<or> n = 133 \<or> n = 160)"

definition py_strip :: "string \<Rightarrow> string" where
  "py_strip s = rev (dropWhile py_isspace (rev (dropWhile py_isspace s)))"

text \<open>
  The dictionary returned by \<^verbatim>\<open>DocumentIngestionAgent.process\<close>; it always
  carries these three keys, and \<^verbatim>\<open>raw_text\<close> is always a string.
\<close>

record ingestion_result =
  document_id :: string
  raw_text :: string
  source_type :: string

text \<open>
  Everything outside the orchestrator's own code that one run depends on:
  the ingestion agent (OCR and PDF readers), the HTTP client, the JSON
  decoder, the float and date parsers, the clock and the file system.
\<close>

record runtime =
  rt_ingest :: "string \<Rightarrow> py_exception + ingestion_result"
  rt_client :: chat_client
  rt_loads :: json_decoder
  rt_float :: "string \<Rightarrow> pyfloat option"
  rt_date :: "string \<Rightarrow> py_exception + unit"
  rt_now :: string
  rt_fault :: io_fault

record orchestrator =
  orch_extraction_agent :: extraction_agent
  orch_system_prompt :: string

text \<open>What a step holds under \<^verbatim>\<open>input\<close> and \<^verbatim>\<open>output\<close>.\<close>

datatype payload =
    PyNone
  | FilePath string
  | RawTextLength nat
  | Ingested ingestion_result
  | Data pyval
  | Verdict validation_result
  | DecisionInput string pyval
  | Decided decision
  | Written write_result

text \<open>
  One entry of \<^verbatim>\<open>steps\<close>. A key the dictionary does not have is \<open>None\<close>:
  \<^verbatim>\<open>input\<close> is missing from a skipped step, \<^verbatim>\<open>error\<close> and \<^verbatim>\<open>reason\<close> from most.
\<close>

record step =
  st_agent :: string
  st_status :: string
  st_input :: "payload option"
  st_output :: payload
  st_error :: "string option"
  st_reason :: "string option"

record pipeline_results =
  system_prompt :: string
  steps :: "string \<rightharpoonup> step"
  overall_status :: "string option"
  pr_error :: "string option"

definition new_step :: "string \<Rightarrow> payload \<Rightarrow> step" where
  "new_step agent_name inp =
     \<lparr>st_agent = agent_name, st_status = ''processing'', st_input = Some inp,
      st_output = PyNone, st_error = None, st_reason = None\<rparr>"

definition set_step :: "pipeline_results \<Rightarrow> string \<Rightarrow> step \<Rightarrow> pipeline_results" where
  "set_step pr name s = pr\<lparr>steps := (steps pr)(name \<mapsto> s)\<rparr>"

text \<open>The \<^verbatim>\<open>except Exception\<close> clause of \<^verbatim>\<open>process_invoice\<close>.\<close>

definition uncaught :: "db_file \<Rightarrow> pipeline_results \<Rightarrow> py_exception \<Rightarrow> db_file \<times> pipeline_results" where
  "uncaught db pr e = (db, pr\<lparr>overall_status := Some ''error'', pr_error := Some (snd e)\<rparr>)"

text \<open>Step 5 and the assignment of \<^verbatim>\<open>overall_status\<close>.\<close>

definition database_write_stage ::
  "runtime \<Rightarrow> db_file \<Rightarrow> pipeline_results \<Rightarrow> validation_result \<Rightarrow> decision
     \<Rightarrow> db_file \<times> pipeline_results" where
  "database_write_stage rt db pr validation_result decision_result =
     (case (if should_write decision_result
            then (case write_invoice_to_db (rt_fault rt) (rt_now rt) db
                         (data_to_write decision_result) of
                    (db', db_result) \<Rightarrow>
                      (db', set_step pr ''database_write''
                              ((new_step ''Database Tool'' (Data (data_to_write decision_result)))
                                 \<lparr>st_output := Written db_result,
                                  st_status := (if success db_result then ''success'' else ''error'')\<rparr>)))
            else (db, set_step pr ''database_write''
                        \<lparr>st_agent = ''Database Tool'', st_status = ''skipped'', st_input = None,
                         st_output = PyNone, st_error = None,
                         st_reason = Some (reason decision_result)\<rparr>))
      of (db', pr') \<Rightarrow>
        (case v_status validation_result of
           None \<Rightarrow> uncaught db' pr' (KeyError, [CHR 0x27] @ ''status'' @ [CHR 0x27])
         | Some st \<Rightarrow>
             (db', pr'\<lparr>overall_status :=
                        Some (if st = ''valid'' then ''success'' else ''incomplete'')\<rparr>)))"

text \<open>Step 4.\<close>

definition tool_decision_stage ::
  "runtime \<Rightarrow> db_file \<Rightarrow> pipeline_results \<Rightarrow> validation_result \<Rightarrow> pyval
     \<Rightarrow> db_file \<times> pipeline_results" where
  "tool_decision_stage rt db pr validation_result extracted_data =
     (case v_status validation_result of
        None \<Rightarrow> uncaught db pr (KeyError, [CHR 0x27] @ ''status'' @ [CHR 0x27])
      | Some st \<Rightarrow>
          (let decision_result = decide validation_result extracted_data;
               s = (new_step ''Tool Decision Agent'' (DecisionInput st extracted_data))
                     \<lparr>st_output := Decided decision_result, st_status := ''success''\<rparr>
           in database_write_stage rt db (set_step pr ''tool_decision'' s)
                validation_result decision_result))"

text \<open>Step 3.\<close>

definition validation_stage ::
  "runtime \<Rightarrow> db_file \<Rightarrow> pipeline_results \<Rightarrow> pyval \<Rightarrow> db_file \<times> pipeline_results" where
  "validation_stage rt db pr extracted_data =
     (let s = new_step ''Validation Agent'' (Data extracted_data);
          pr1 = set_step pr ''validation'' s
      in case validate (rt_float rt) (rt_date rt) extracted_data of
           Inl e \<Rightarrow> uncaught db pr1 e
         | Inr validation_result \<Rightarrow>
             (case v_status validation_result of
                None \<Rightarrow> uncaught db
                          (set_step pr1 ''validation'' (s\<lparr>st_output := Verdict validation_result\<rparr>))
                          (KeyError, [CHR 0x27] @ ''status'' @ [CHR 0x27])
              | Some st \<Rightarrow>
                  tool_decision_stage rt db
                    (set_step pr1 ''validation''
                       (s\<lparr>st_output := Verdict validation_result,
                          st_status := (if st = ''valid'' then ''success'' else ''failed'')\<rparr>))
                    validation_result extracted_data))"

text \<open>Step 2.\<close>

definition extraction_stage ::
  "runtime \<Rightarrow> orchestrator \<Rightarrow> db_file \<Rightarrow> pipeline_results \<Rightarrow> string
     \<Rightarrow> db_file \<times> pipeline_results" where
  "extraction_stage rt orch db pr raw =
     (let s = new_step ''Information Extraction Agent'' (RawTextLength (length raw));
          pr1 = set_step pr ''extraction'' s
      in case extract_fields (rt_client rt) (rt_loads rt) (orch_extraction_agent orch) raw of
           Inl e \<Rightarrow> uncaught db pr1 e
         | Inr extracted_data \<Rightarrow>
             validation_stage rt db
               (set_step pr1 ''extraction''
                  (s\<lparr>st_output := Data extracted_data, st_status := ''success''\<rparr>))
               extracted_data)"

text \<open>
  \<^verbatim>\<open>InvoiceProcessingOrchestrator.process_invoice\<close>: takes the database file
  as it is before the call and returns it as it is afterwards, next to the
  dictionary the method returns.
\<close>

definition process_invoice ::
  "runtime \<Rightarrow> orchestrator \<Rightarrow> db_file \<Rightarrow> string \<Rightarrow> db_file \<times> pipeline_results" where
  "process_invoice rt orch db file_path =
     (let pipeline_results =
            \<lparr>system_prompt = orch_system_prompt orch, steps = Map.empty,
             overall_status = None, pr_error = None\<rparr>;
          s = new_step ''Document Ingestion Agent'' (FilePath file_path);
          pr1 = set_step pipeline_results ''document_ingestion'' s
      in case rt_ingest rt file_path of
           Inl e \<Rightarrow> uncaught db pr1 e
         | Inr ingestion_result \<Rightarrow>
             (let s1 = s\<lparr>st_output := Ingested ingestion_result, st_status := ''success''\<rparr>;
                  pr2 = set_step pr1 ''document_ingestion'' s1;
                  raw = raw_text ingestion_result
              in if py_strip raw = []
                 then (db, set_step pr2 ''document_ingestion''
                             (s1\<lparr>st_status := ''error'',
                                 st_error := Some ''No text extracted from document''\<rparr>))
                 else extraction_stage rt orch db pr2 raw))"


section \<open>What the specification says\<close>

subsection \<open>The validator's rules\<close>

text \<open>
  The rules of the validator, in the specification's words, each giving at
  most one message: the name is present and not null; the amount is present,
  not null, coercible to a number and strictly positive; the due date, when
  present and not null, parses. The verdict is \<^verbatim>\<open>valid\<close> when no rule is
  violated and \<^verbatim>\<open>incomplete\<close> with the messages otherwise.
\<close>

fun strictly_positive :: "pyfloat \<Rightarrow> bool" where
  "strictly_positive (Finite r) = (0 < r)"
| "strictly_positive PosInf = True"
| "strictly_positive NegInf = False"
| "strictly_positive NaN = False"

definition absent_or_null :: "(string \<times> pyval) list \<Rightarrow> string \<Rightarrow> bool" where
  "absent_or_null d k = (map_of d k = None \<or> map_of d k = Some PNone)"

definition amount_violations :: "(string \<Rightarrow> pyfloat option) \<Rightarrow> (string \<times> pyval) list \<Rightarrow> string list" where
  "amount_violations fos d =
     (case map_of d ''total_amount'' of
        None \<Rightarrow> [''Missing required field: total_amount'']
      | Some v \<Rightarrow>
          if v = PNone then [''Missing required field: total_amount'']
          else (case py_float fos v of
                  Inl e \<Rightarrow> [''total_amount must be a valid number'']
                | Inr amount \<Rightarrow>
                    if strictly_positive amount then []
                    else [''total_amount must be a positive number'']))"

definition date_violations :: "(string \<Rightarrow> py_exception + unit) \<Rightarrow> (string \<times> pyval) list \<Rightarrow> string list" where
  "date_violations dp d =
     (case map_of d ''due_date'' of
        None \<Rightarrow> []
      | Some v \<Rightarrow>
          if v = PNone then []
          else (case parser_parse dp v of
                  Inr parsed \<Rightarrow> []
                | Inl e \<Rightarrow> [''due_date must be a valid date format'']))"

definition rule_violations ::
  "(string \<Rightarrow> pyfloat option) \<Rightarrow> (string \<Rightarrow> py_exception + unit) \<Rightarrow> (string \<times> pyval) list
     \<Rightarrow> string list" where
  "rule_violations fos dp d =
     (if absent_or_null d ''biller_name'' then [''Missing required field: biller_name''] else [])
     @ amount_violations fos d @ date_violations dp d"

definition verdict_of :: "string list \<Rightarrow> validation_result" where
  "verdict_of violations =
     (if violations = [] then \<lparr>v_status = Some ''valid'', v_errors = Some []\<rparr>
      else \<lparr>v_status = Some ''incomplete'', v_errors = Some violations\<rparr>)"

text \<open>
  The mappings on which the two \<^verbatim>\<open>except\<close> clauses of the validator and its
  comparison with zero are enough: the amount does not overflow the
  conversion and is not NaN, and the date parser fails, if it does, with a
  \<^verbatim>\<open>ValueError\<close> or a \<^verbatim>\<open>TypeError\<close>.
\<close>

definition amount_in_reach :: "(string \<Rightarrow> pyfloat option) \<Rightarrow> (string \<times> pyval) list \<Rightarrow> bool" where
  "amount_in_reach fos d =
     (case map_of d ''total_amount'' of
        None \<Rightarrow> True
      | Some v \<Rightarrow>
          (case py_float fos v of
             Inl (c, m) \<Rightarrow> c \<noteq> OverflowError
           | Inr amount \<Rightarrow> amount \<noteq> NaN))"

definition date_in_reach :: "(string \<Rightarrow> py_exception + unit) \<Rightarrow> (string \<times> pyval) list \<Rightarrow> bool" where
  "date_in_reach dp d =
     (case map_of d ''due_date'' of
        Some (PStr s) \<Rightarrow>
          (case dp s of Inl (c, m) \<Rightarrow> issubclass c ValueError \<or> issubclass c TypeError | Inr u \<Rightarrow> True)
      | _ \<Rightarrow> True)"

subsection \<open>The extractor's result\<close>










section \<open>Sample data\<close>

text \<open>
  The mapping of the first end-to-end scenario: an invoice of Acme Co. over
  150.00, due on 2025-03-01, with no address.
\<close>

definition acme_fields :: pyval where
  "acme_fields =
     PDict [(''biller_name'', PStr ''Acme Co.''), (''biller_address'', PNone),
            (''total_amount'', PFloat (Finite 150)), (''due_date'', PStr ''2025-03-01'')]"



















section \<open>Properties of the validation and decision agents\<close>

lemma check_required_dict:
  "check_required (PDict d) [''biller_name'', ''total_amount''] [] =
     Inr ((if map_of d ''biller_name'' = None \<or> map_of d ''biller_name'' = Some PNone
           then [''Missing required field: biller_name''] else [])
        @ (if map_of d ''total_amount'' = None \<or> map_of d ''total_amount'' = Some PNone
           then [''Missing required field: total_amount''] else []))"
  by (auto split: option.splits)

lemma py_float_classes:
  "py_float fos v = Inl (c, m) \<Longrightarrow> c = OverflowError \<or> c = ValueError \<or> c = TypeError"
  by (cases v) (auto simp: py_float_def split: if_splits option.splits)

lemma le_zero_positive: "f \<noteq> NaN \<Longrightarrow> le_zero f = (\<not> strictly_positive f)"
  by (cases f) auto

lemma check_total_amount_dict:
  assumes "amount_in_reach fos d"
  shows "check_total_amount fos (PDict d) errs
         = Inr (errs @ (if absent_or_null d ''total_amount'' then [] else amount_violations fos d))"
proof (cases "map_of d ''total_amount''")
  case None
  then show ?thesis
    by (simp add: check_total_amount_def present_value_def absent_or_null_def)
next
  case (Some v)
  show ?thesis
  proof (cases "v = PNone")
    case True
    with Some show ?thesis
      by (simp add: check_total_amount_def present_value_def absent_or_null_def)
  next
    case False
    show ?thesis
    proof (cases "py_float fos v")
      case (Inl e)
      obtain c m where e: "e = (c, m)" by (cases e)
      from assms Some Inl e have "c \<noteq> OverflowError"
        by (simp add: amount_in_reach_def)
      with py_float_classes [of fos v c m] Inl e have "c = ValueError \<or> c = TypeError"
        by simp
      with Some False Inl e show ?thesis
        by (auto simp: check_total_amount_def present_value_def absent_or_null_def
              amount_violations_def)
    next
      case (Inr amount)
      from assms Some Inr have "amount \<noteq> NaN"
        by (simp add: amount_in_reach_def)
      with Some False Inr show ?thesis
        by (simp add: check_total_amount_def present_value_def absent_or_null_def
              amount_violations_def le_zero_positive)
    qed
  qed
qed

lemma parser_parse_non_string:
  "\<forall>s. v \<noteq> PStr s \<Longrightarrow> \<exists>m. parser_parse dp v = Inl (TypeError, m)"
  by (cases v) (simp_all add: parser_parse_def)

lemma check_due_date_dict:
  assumes "date_in_reach dp d"
  shows "check_due_date dp (PDict d) errs = Inr (errs @ date_violations dp d)"
proof (cases "map_of d ''due_date''")
  case None
  then show ?thesis
    by (simp add: check_due_date_def present_value_def date_violations_def)
next
  case (Some v)
  show ?thesis
  proof (cases "v = PNone")
    case True
    with Some show ?thesis
      by (simp add: check_due_date_def present_value_def date_violations_def)
  next
    case False
    show ?thesis
    proof (cases "\<exists>s. v = PStr s")
      case True
      then obtain s where s: "v = PStr s" by blast
      with assms Some show ?thesis
        by (auto simp: check_due_date_def present_value_def date_violations_def
              is_valid_date_def parser_parse_def date_in_reach_def split: sum.splits)
    next
      case ns: False
      then obtain m where "parser_parse dp v = Inl (TypeError, m)"
        using parser_parse_non_string [of v dp] by blast
      with Some False show ?thesis
        by (simp add: check_due_date_def present_value_def date_violations_def
              is_valid_date_def)
    qed
  qed
qed

text \<open>
  On every mapping within reach of its handlers the validator returns the
  verdict of the rules, with the messages in rule order.
\<close>

lemma validate_follows_rules:
  assumes "amount_in_reach fos d" and "date_in_reach dp d"
  shows "validate fos dp (PDict d) = Inr (verdict_of (rule_violations fos dp d))"
proof -
  have "absent_or_null d ''total_amount'' \<Longrightarrow>
          amount_violations fos d = [''Missing required field: total_amount'']"
    by (auto simp: absent_or_null_def amount_violations_def)
  then show ?thesis
    using check_total_amount_dict [OF assms(1)] check_due_date_dict [OF assms(2)]
    by (auto simp: validate_def check_required_dict rule_violations_def verdict_of_def
          absent_or_null_def)
qed

text \<open>
  C3. The claim: a mapping is valid exactly when the name is present, the
  amount is a strictly positive number and the date, if any, parses. The
  code rejects an amount only when \<^verbatim>\<open>amount <= 0\<close> holds, and that comparison
  is false for NaN: a mapping whose amount is NaN, which \<^verbatim>\<open>json.loads\<close>
  produces for the literal \<^verbatim>\<open>NaN\<close> and \<^verbatim>\<open>float("nan")\<close> for a typed-in amount, is
  reported valid with no error, whatever the string and date parsers do.
\<close>

theorem validate_accepts_nan_amount:
  "validate fos dp
     (PDict [(''biller_name'', PStr ''Acme Co.''), (''biller_address'', PNone),
             (''total_amount'', PFloat NaN), (''due_date'', PNone)])
   = Inr \<lparr>v_status = Some ''valid'', v_errors = Some []\<rparr>"
  by (simp add: validate_def check_total_amount_def check_due_date_def present_value_def
        py_float_def)

text \<open>
  Amounts of other types: a boolean converts (\<^verbatim>\<open>True\<close> is 1.0 and passes),
  a list does not and is reported as not a valid number.
\<close>

lemma validate_bool_amount:
  "validate fos dp (PDict [(''biller_name'', PStr ''Acme Co.''), (''total_amount'', PBool True)])
   = Inr \<lparr>v_status = Some ''valid'', v_errors = Some []\<rparr>"
  by (simp add: validate_def check_total_amount_def check_due_date_def present_value_def
        py_float_def)

lemma validate_list_amount:
  "validate fos dp (PDict [(''biller_name'', PStr ''Acme Co.''), (''total_amount'', PList [])])
   = Inr \<lparr>v_status = Some ''incomplete'',
          v_errors = Some [''total_amount must be a valid number'']\<rparr>"
  by (simp add: validate_def check_total_amount_def check_due_date_def present_value_def
        py_float_def)

text \<open>
  C10. The claim: \<^verbatim>\<open>validate\<close> returns a verdict for every mapping. The
  conversion \<^verbatim>\<open>float(...)\<close> is guarded against \<^verbatim>\<open>ValueError\<close> and \<^verbatim>\<open>TypeError\<close>
  only; an integer amount too large for a double raises \<^verbatim>\<open>OverflowError\<close>,
  which leaves \<^verbatim>\<open>validate\<close> instead of becoming an error entry.
\<close>

theorem validate_raises_on_huge_int_amount:
  "validate fos dp
     (PDict [(''biller_name'', PStr ''Acme Co.''), (''total_amount'', PInt (10 ^ 400))])
   = Inl (OverflowError, ''int too large to convert to float'')"
  by (simp add: validate_def check_total_amount_def present_value_def py_float_def)

text \<open>
  C4, as stated: when the decision is not to write, the reason is the
  concatenation of the verdict's error messages. It is not: the messages
  are joined with a comma and a space, behind a fixed prefix.
\<close>

theorem decide_reason_counterexample:
  "reason (decide \<lparr>v_status = Some ''incomplete'',
                   v_errors = Some [''Missing required field: biller_name'',
                                    ''total_amount must be a positive number'']\<rparr>
                  (PDict [(''biller_name'', PNone), (''total_amount'', PInt (- 5))]))
   \<noteq> concat [''Missing required field: biller_name'',
              ''total_amount must be a positive number'']"
  by (simp add: decide_def)

text \<open>
  C4, amended. \<^verbatim>\<open>decide\<close> writes exactly when the verdict's status is
  \<^verbatim>\<open>valid\<close>. Then the data to write is the given mapping, untouched, and the
  reason is the fixed pass message. Otherwise the data to write is \<^verbatim>\<open>None\<close>
  and the reason is \<^verbatim>\<open>Validation failed: \<close> followed by the verdict's error
  messages joined with \<^verbatim>\<open>, \<close> (no messages when the verdict has none).
\<close>

theorem decide_routes_on_status:
  "should_write (decide vr extracted_data) = (v_status vr = Some ''valid'')
   \<and> (v_status vr = Some ''valid'' \<longrightarrow>
        data_to_write (decide vr extracted_data) = extracted_data
        \<and> reason (decide vr extracted_data) = ''Invoice validation passed'')
   \<and> (v_status vr \<noteq> Some ''valid'' \<longrightarrow>
        data_to_write (decide vr extracted_data) = PNone
        \<and> reason (decide vr extracted_data)
            = ''Validation failed: ''
                @ join '', '' (case v_errors vr of None \<Rightarrow> [] | Some es \<Rightarrow> es))"
  by (cases "v_status vr") (simp_all add: decide_def)

theorem decide_routes_on_status_witness:
  "v_status \<lparr>v_status = Some ''valid'', v_errors = Some []\<rparr> = Some ''valid''
   \<and> decide \<lparr>v_status = Some ''valid'', v_errors = Some []\<rparr>
        (PDict [(''biller_name'', PStr ''Acme Co.''), (''total_amount'', PInt 150)])
      = \<lparr>should_write = True, reason = ''Invoice validation passed'',
         data_to_write = PDict [(''biller_name'', PStr ''Acme Co.''), (''total_amount'', PInt 150)]\<rparr>
   \<and> v_status \<lparr>v_status = Some ''incomplete'',
                v_errors = Some [''Missing required field: biller_name'',
                                 ''total_amount must be a positive number'']\<rparr> \<noteq> Some ''valid''
   \<and> decide \<lparr>v_status = Some ''incomplete'',
               v_errors = Some [''Missing required field: biller_name'',
                                ''total_amount must be a positive number'']\<rparr>
        (PDict [(''biller_name'', PNone), (''total_amount'', PInt (- 5))])
      = \<lparr>should_write = False,
         reason = ''Validation failed: Missing required field: biller_name, total_amount must be a positive number'',
         data_to_write = PNone\<rparr>"
  using decide_routes_on_status
          [of "\<lparr>v_status = Some ''valid'', v_errors = Some []\<rparr>"
              "PDict [(''biller_name'', PStr ''Acme Co.''), (''total_amount'', PInt 150)]"]
        decide_routes_on_status
          [of "\<lparr>v_status = Some ''incomplete'',
                 v_errors = Some [''Missing required field: biller_name'',
                                  ''total_amount must be a positive number'']\<rparr>"
              "PDict [(''biller_name'', PNone), (''total_amount'', PInt (- 5))]"]
  by (cases "decide \<lparr>v_status = Some ''valid'', v_errors = Some []\<rparr>
               (PDict [(''biller_name'', PStr ''Acme Co.''), (''total_amount'', PInt 150)])";
      cases "decide \<lparr>v_status = Some ''incomplete'',
                      v_errors = Some [''Missing required field: biller_name'',
                                       ''total_amount must be a positive number'']\<rparr>
               (PDict [(''biller_name'', PNone), (''total_amount'', PInt (- 5))])")
     simp

section \<open>Properties of the database tool\<close>

lemma record_id:
  "map_of (AList.update ''status'' a (AList.update ''created_at'' b (AList.update ''id'' c d))) ''id''
     = Some c"
  by (simp add: update_conv')





lemma save_invoices_Inl:
  "save_invoices fault f invoices = (f', Inl e) \<Longrightarrow> (\<forall>e. fault \<noteq> DumpFault e) \<Longrightarrow> f' = f"
  by (cases fault) (simp_all add: save_invoices_def)



text \<open>
  A failed call: the result has the failure shape, and the file is the one
  the call found unless the failure came after the file was opened for
  writing.
\<close>

lemma write_failure:
  assumes w: "write_invoice_to_db fault now f invoice_data = (f', r)" and s: "\<not> success r"
  shows "invoice_id r = None \<and> (\<exists>m. message r = ''Error writing to database: '' @ m)
         \<and> ((\<forall>e. fault \<noteq> DumpFault e) \<longrightarrow> f' = f)"
proof -
  from w s have "\<exists>e. r = write_failed e"
    by (auto simp: write_invoice_to_db_def split: sum.splits prod.splits)
  then have 1: "invoice_id r = None \<and> (\<exists>m. message r = ''Error writing to database: '' @ m)"
    by (auto simp: write_failed_def)
  have 2: "f' = f" if nd: "\<forall>e. fault \<noteq> DumpFault e"
  proof (cases "load_invoices fault f")
    case (Inl e)
    with w show ?thesis by (simp add: write_invoice_to_db_def)
  next
    case l: (Inr invoices)
    show ?thesis
    proof (cases "invoice_record invoice_data invoices now")
      case (Inl e)
      with w l show ?thesis by (simp add: write_invoice_to_db_def)
    next
      case rc: (Inr rcd)
      show ?thesis
      proof (cases "py_append invoices (PDict rcd)")
        case (Inl e)
        with w l rc show ?thesis by (simp add: write_invoice_to_db_def)
      next
        case a: (Inr invoices')
        obtain f2 o2 where sv: "save_invoices fault f invoices' = (f2, o2)" by force
        show ?thesis
        proof (cases o2)
          case (Inl e)
          with w l rc a sv have "f' = f2" by (simp add: write_invoice_to_db_def)
          with save_invoices_Inl sv Inl nd show ?thesis by blast
        next
          case (Inr u)
          with w l rc a sv have "success r" by (auto simp: write_invoice_to_db_def)
          with s show ?thesis by simp
        qed
      qed
    qed
  qed
  from 1 2 show ?thesis by blast
qed






text \<open>
  C7, as stated: whatever fails, the file is left in its last committed
  state. The file is rewritten in place: opening it for writing empties it,
  and when \<^verbatim>\<open>json.dump\<close> then fails the call reports the failure, but the
  record that was stored before is gone.
\<close>

theorem partial_write_counterexample:
  "write_invoice_to_db (DumpFault (OSError, ''No space left on device'')) ''2025-01-15T09:31:00''
     (Json (PList [acme_fields])) acme_fields
   = (Corrupt,
      \<lparr>success = False,
       message = ''Error writing to database: No space left on device'',
       invoice_id = None\<rparr>)
   \<and> fst (write_invoice_to_db (DumpFault (OSError, ''No space left on device''))
            ''2025-01-15T09:31:00'' (Json (PList [acme_fields])) acme_fields)
      \<noteq> Json (PList [acme_fields])"
  by (simp add: acme_fields_def write_invoice_to_db_def load_invoices_def read_db_def
        invoice_record_def save_invoices_def write_failed_def)

lemma faulty_write_fails:
  "fault \<noteq> NoFault \<Longrightarrow> \<not> success (snd (write_invoice_to_db fault now f invoice_data))"
  by (cases fault)
     (auto simp: write_invoice_to_db_def load_invoices_def read_db_def save_invoices_def
        write_failed_def split: sum.splits)

text \<open>
  C7, amended. A failure in any phase of the call is reported: when the
  load raises, when building the record or appending it raises, or when the
  rewrite raises, the call returns \<^verbatim>\<open>success = False\<close>, the message
  \<^verbatim>\<open>Error writing to database: \<close> followed by the text of the exception, and a
  null identifier; in particular no call that met a fault of the file system
  or of \<^verbatim>\<open>json.dump\<close> reports success. When the failure happens while loading,
  while building or appending the record, or while opening the file for
  writing, the file is left exactly as the call found it.
\<close>

theorem failed_write_reported:
  "(load_invoices fault f = Inl e \<longrightarrow>
      write_invoice_to_db fault now f invoice_data
        = (f, \<lparr>success = False, message = ''Error writing to database: '' @ snd e,
               invoice_id = None\<rparr>))
   \<and> (load_invoices fault f = Inr invoices
        \<and> invoice_record invoice_data invoices now = Inl e \<longrightarrow>
      write_invoice_to_db fault now f invoice_data
        = (f, \<lparr>success = False, message = ''Error writing to database: '' @ snd e,
               invoice_id = None\<rparr>))
   \<and> (load_invoices fault f = Inr invoices
        \<and> invoice_record invoice_data invoices now = Inr rcd
        \<and> py_append invoices (PDict rcd) = Inl e \<longrightarrow>
      write_invoice_to_db fault now f invoice_data
        = (f, \<lparr>success = False, message = ''Error writing to database: '' @ snd e,
               invoice_id = None\<rparr>))
   \<and> (load_invoices fault f = Inr invoices
        \<and> invoice_record invoice_data invoices now = Inr rcd
        \<and> py_append invoices (PDict rcd) = Inr invoices'
        \<and> save_invoices fault f invoices' = (f', Inl e) \<longrightarrow>
      write_invoice_to_db fault now f invoice_data
        = (f', \<lparr>success = False, message = ''Error writing to database: '' @ snd e,
                invoice_id = None\<rparr>)
      \<and> ((\<forall>x. fault \<noteq> DumpFault x) \<longrightarrow> f' = f))
   \<and> (fault \<noteq> NoFault \<longrightarrow> \<not> success (snd (write_invoice_to_db fault now f invoice_data)))
   \<and> (\<not> success (snd (write_invoice_to_db fault now f invoice_data)) \<longrightarrow>
        invoice_id (snd (write_invoice_to_db fault now f invoice_data)) = None
        \<and> (\<exists>m. message (snd (write_invoice_to_db fault now f invoice_data))
                 = ''Error writing to database: '' @ m)
        \<and> ((\<forall>x. fault \<noteq> DumpFault x) \<longrightarrow>
             fst (write_invoice_to_db fault now f invoice_data) = f))"
proof -
  let ?failed = "\<lparr>success = False, message = ''Error writing to database: '' @ snd e,
                  invoice_id = None\<rparr>"
  have 1: "load_invoices fault f = Inl e \<longrightarrow>
             write_invoice_to_db fault now f invoice_data = (f, ?failed)"
    by (simp add: write_invoice_to_db_def write_failed_def)
  have 2: "load_invoices fault f = Inr invoices
             \<and> invoice_record invoice_data invoices now = Inl e \<longrightarrow>
           write_invoice_to_db fault now f invoice_data = (f, ?failed)"
    by (simp add: write_invoice_to_db_def write_failed_def)
  have 3: "load_invoices fault f = Inr invoices
             \<and> invoice_record invoice_data invoices now = Inr rcd
             \<and> py_append invoices (PDict rcd) = Inl e \<longrightarrow>
           write_invoice_to_db fault now f invoice_data = (f, ?failed)"
    by (simp add: write_invoice_to_db_def write_failed_def)
  have 4: "load_invoices fault f = Inr invoices
             \<and> invoice_record invoice_data invoices now = Inr rcd
             \<and> py_append invoices (PDict rcd) = Inr invoices'
             \<and> save_invoices fault f invoices' = (f', Inl e) \<longrightarrow>
           write_invoice_to_db fault now f invoice_data = (f', ?failed)
           \<and> ((\<forall>x. fault \<noteq> DumpFault x) \<longrightarrow> f' = f)"
    using save_invoices_Inl [of fault f invoices' f' e]
    by (simp add: write_invoice_to_db_def write_failed_def)
  have 5: "fault \<noteq> NoFault \<longrightarrow>
             \<not> success (snd (write_invoice_to_db fault now f invoice_data))"
    using faulty_write_fails by blast
  obtain f1 r where w: "write_invoice_to_db fault now f invoice_data = (f1, r)"
    by force
  have 6: "\<not> success (snd (write_invoice_to_db fault now f invoice_data)) \<longrightarrow>
        invoice_id (snd (write_invoice_to_db fault now f invoice_data)) = None
        \<and> (\<exists>m. message (snd (write_invoice_to_db fault now f invoice_data))
                 = ''Error writing to database: '' @ m)
        \<and> ((\<forall>x. fault \<noteq> DumpFault x) \<longrightarrow>
             fst (write_invoice_to_db fault now f invoice_data) = f)"
    using write_failure [OF w] by (simp add: w)
  show ?thesis
    by (intro conjI 1 2 3 4 5 6)
qed

theorem failed_write_reported_witness:
  "write_invoice_to_db (ReadFault ''Permission denied'') ''2025-01-15T09:31:00''
     (Json (PList [acme_fields])) acme_fields
   = (Json (PList [acme_fields]),
      \<lparr>success = False, message = ''Error writing to database: Permission denied'',
       invoice_id = None\<rparr>)
   \<and> write_invoice_to_db NoFault ''2025-01-15T09:31:00'' (Json (PList [acme_fields])) (PList [])
     = (Json (PList [acme_fields]),
        \<lparr>success = False,
         message = ''Error writing to database: '' @ [CHR 0x27] @ ''list'' @ [CHR 0x27]
                     @ '' object is not a mapping'',
         invoice_id = None\<rparr>)
   \<and> write_invoice_to_db NoFault ''2025-01-15T09:31:00'' (Json (PDict [])) acme_fields
     = (Json (PDict []),
        \<lparr>success = False,
         message = ''Error writing to database: '' @ [CHR 0x27] @ ''dict'' @ [CHR 0x27]
                     @ '' object has no attribute '' @ [CHR 0x27] @ ''append'' @ [CHR 0x27],
         invoice_id = None\<rparr>)
   \<and> write_invoice_to_db (OpenFault ''Permission denied'') ''2025-01-15T09:31:00''
       (Json (PList [acme_fields])) acme_fields
     = (Json (PList [acme_fields]),
        \<lparr>success = False, message = ''Error writing to database: Permission denied'',
         invoice_id = None\<rparr>)"
proof (intro conjI)
  have "load_invoices (ReadFault ''Permission denied'') (Json (PList [acme_fields]))
          = Inl (OSError, ''Permission denied'')"
    by (simp add: load_invoices_def read_db_def)
  with failed_write_reported
         [where fault = "ReadFault ''Permission denied''" and f = "Json (PList [acme_fields])"
            and e = "(OSError, ''Permission denied'')" and now = "''2025-01-15T09:31:00''"
            and invoice_data = acme_fields]
  show "write_invoice_to_db (ReadFault ''Permission denied'') ''2025-01-15T09:31:00''
     (Json (PList [acme_fields])) acme_fields
   = (Json (PList [acme_fields]),
      \<lparr>success = False, message = ''Error writing to database: Permission denied'',
       invoice_id = None\<rparr>)"
    by simp
next
  have "load_invoices NoFault (Json (PList [acme_fields])) = Inr (PList [acme_fields])"
    and "invoice_record (PList []) (PList [acme_fields]) ''2025-01-15T09:31:00''
          = Inl (TypeError, [CHR 0x27] @ ''list'' @ [CHR 0x27] @ '' object is not a mapping'')"
    by (simp_all add: load_invoices_def read_db_def invoice_record_def)
  with failed_write_reported
         [where fault = NoFault and f = "Json (PList [acme_fields])"
            and invoices = "PList [acme_fields]"
            and e = "(TypeError, [CHR 0x27] @ ''list'' @ [CHR 0x27] @ '' object is not a mapping'')"
            and now = "''2025-01-15T09:31:00''" and invoice_data = "PList []"]
  show "write_invoice_to_db NoFault ''2025-01-15T09:31:00'' (Json (PList [acme_fields])) (PList [])
     = (Json (PList [acme_fields]),
        \<lparr>success = False,
         message = ''Error writing to database: '' @ [CHR 0x27] @ ''list'' @ [CHR 0x27]
                     @ '' object is not a mapping'',
         invoice_id = None\<rparr>)"
    by simp
next
  obtain rcd where rcd: "invoice_record acme_fields (PDict []) ''2025-01-15T09:31:00'' = Inr rcd"
    by (simp add: invoice_record_def acme_fields_def)
  have "load_invoices NoFault (Json (PDict [])) = Inr (PDict [])"
    and "py_append (PDict []) (PDict rcd)
          = Inl (AttributeError, [CHR 0x27] @ ''dict'' @ [CHR 0x27]
                   @ '' object has no attribute '' @ [CHR 0x27] @ ''append'' @ [CHR 0x27])"
    by (simp_all add: load_invoices_def read_db_def)
  with rcd failed_write_reported
         [where fault = NoFault and f = "Json (PDict [])" and invoices = "PDict []"
            and rcd = rcd
            and e = "(AttributeError, [CHR 0x27] @ ''dict'' @ [CHR 0x27]
                       @ '' object has no attribute '' @ [CHR 0x27] @ ''append'' @ [CHR 0x27])"
            and now = "''2025-01-15T09:31:00''" and invoice_data = acme_fields]
  show "write_invoice_to_db NoFault ''2025-01-15T09:31:00'' (Json (PDict [])) acme_fields
     = (Json (PDict []),
        \<lparr>success = False,
         message = ''Error writing to database: '' @ [CHR 0x27] @ ''dict'' @ [CHR 0x27]
                     @ '' object has no attribute '' @ [CHR 0x27] @ ''append'' @ [CHR 0x27],
         invoice_id = None\<rparr>)"
    by simp
next
  obtain rcd where rcd: "invoice_record acme_fields (PList [acme_fields]) ''2025-01-15T09:31:00''
                           = Inr rcd"
    by (simp add: invoice_record_def acme_fields_def)
  have "load_invoices (OpenFault ''Permission denied'') (Json (PList [acme_fields]))
          = Inr (PList [acme_fields])"
    and "py_append (PList [acme_fields]) (PDict rcd) = Inr (PList [acme_fields, PDict rcd])"
    and "save_invoices (OpenFault ''Permission denied'') (Json (PList [acme_fields]))
           (PList [acme_fields, PDict rcd])
         = (Json (PList [acme_fields]), Inl (OSError, ''Permission denied''))"
    by (simp_all add: load_invoices_def read_db_def save_invoices_def)
  with rcd failed_write_reported
         [where fault = "OpenFault ''Permission denied''" and f = "Json (PList [acme_fields])"
            and invoices = "PList [acme_fields]" and rcd = rcd
            and invoices' = "PList [acme_fields, PDict rcd]"
            and f' = "Json (PList [acme_fields])"
            and e = "(OSError, ''Permission denied'')"
            and now = "''2025-01-15T09:31:00''" and invoice_data = acme_fields]
  show "write_invoice_to_db (OpenFault ''Permission denied'') ''2025-01-15T09:31:00''
       (Json (PList [acme_fields])) acme_fields
     = (Json (PList [acme_fields]),
        \<lparr>success = False, message = ''Error writing to database: Permission denied'',
         invoice_id = None\<rparr>)"
    by simp
qed

text \<open>
  C9, as stated: whenever the file exists but is not valid JSON, the next
  call succeeds with the identifier 1 and the old content is discarded. A
  file whose bytes do not decode as text is not valid JSON either, but
  reading it raises \<^verbatim>\<open>UnicodeDecodeError\<close>, which \<^verbatim>\<open>_load_invoices\<close> does not
  catch: the call fails and the file stays as it is.
\<close>

theorem invalid_json_restart_counterexample:
  "write_invoice_to_db NoFault ''2025-01-15T09:31:00'' NotText acme_fields
   = (NotText,
      \<lparr>success = False,
       message = ''Error writing to database: '' @ [CHR 0x27] @ ''utf-8'' @ [CHR 0x27]
                   @ '' codec can'' @ [CHR 0x27]
                   @ ''t decode byte 0xff in position 0: invalid start byte'',
       invoice_id = None\<rparr>)"
  by (simp add: write_invoice_to_db_def load_invoices_def read_db_def write_failed_def)

text \<open>
  C9, amended. When the file exists and holds text that the decoder rejects
  with \<^verbatim>\<open>json.JSONDecodeError\<close>, the next call with a mapping, during which
  neither the file system nor \<^verbatim>\<open>json.dump\<close> raises, starts from an empty list:
  it succeeds, hands out the identifier 1, and the file then holds the new
  record and nothing else. When the file's bytes do not decode as text, the
  same call reports a failure with a null identifier and leaves the file as
  it found it.
\<close>

theorem corrupt_store_restarts_at_one:
  "write_invoice_to_db NoFault now Corrupt (PDict d)
   = (Json (PList [PDict (AList.update ''status'' (PStr ''stored'')
                     (AList.update ''created_at'' (PStr now)
                       (AList.update ''id'' (PInt 1) d)))]),
      \<lparr>success = True, message = ''Invoice successfully written to database'',
       invoice_id = Some 1\<rparr>)
   \<and> fst (write_invoice_to_db NoFault now NotText (PDict d)) = NotText
   \<and> success (snd (write_invoice_to_db NoFault now NotText (PDict d))) = False
   \<and> invoice_id (snd (write_invoice_to_db NoFault now NotText (PDict d))) = None"
  by (simp add: write_invoice_to_db_def load_invoices_def read_db_def
        invoice_record_def save_invoices_def int_item_def record_id write_failed_def)

section \<open>Properties of the extraction agent\<close>









section \<open>Properties of the orchestrator\<close>




















text \<open>
  Blank text ends the run at once: the ingestion step is in error, no other
  step is entered, the file is untouched, and nothing is assigned to
  \<^verbatim>\<open>overall_status\<close>.
\<close>

lemma blank_text_run:
  assumes "rt_ingest rt fp = Inr ing" and "py_strip (raw_text ing) = []"
  shows "process_invoice rt orch db fp
         = (db,
            \<lparr>system_prompt = orch_system_prompt orch,
             steps = [''document_ingestion'' \<mapsto>
                        \<lparr>st_agent = ''Document Ingestion Agent'', st_status = ''error'',
                         st_input = Some (FilePath fp), st_output = Ingested ing,
                         st_error = Some ''No text extracted from document'',
                         st_reason = None\<rparr>],
             overall_status = None, pr_error = None\<rparr>)"
  using assms by (simp add: process_invoice_def set_step_def new_step_def Let_def)

text \<open>
  C2. The claim: a run on blank text ends at once with the ingestion step in
  error, no other step, and \<^verbatim>\<open>overall_status\<close> equal to \<^verbatim>\<open>error\<close>. The code
  marks the step and returns before any assignment to \<^verbatim>\<open>overall_status\<close>:
  the key is missing from the run it returns, for every runtime,
  orchestrator, file and path.
\<close>

theorem blank_text_run_lacks_overall_status:
  "process_invoice
     (rt\<lparr>rt_ingest := \<lambda>file_path. Inr \<lparr>document_id = doc, raw_text = ''   '',
                                         source_type = ''image''\<rparr>\<rparr>)
     orch db fp
   = (db,
      \<lparr>system_prompt = orch_system_prompt orch,
       steps = [''document_ingestion'' \<mapsto>
                  \<lparr>st_agent = ''Document Ingestion Agent'', st_status = ''error'',
                   st_input = Some (FilePath fp),
                   st_output = Ingested \<lparr>document_id = doc, raw_text = ''   '',
                                          source_type = ''image''\<rparr>,
                   st_error = Some ''No text extracted from document'', st_reason = None\<rparr>],
       overall_status = None, pr_error = None\<rparr>)"
  by (simp add: process_invoice_def set_step_def new_step_def Let_def py_strip_def py_isspace_def)



end
